theory Spec2Isabelle
  imports Main "HOL-Library.Word"
begin

unbundle bit_operations_syntax

section \<open>Status enumerations of the controller entity\<close>

text \<open>
  The header \<^verbatim>\<open>controllerEntity.hpp\<close> declares four scoped enumerations over
  \<^verbatim>\<open>std::uint16_t\<close>. Each is embedded in two layers:
  \<^item> a datatype with one constructor per declared enumerator (the scope
    \<^verbatim>\<open>AemCommandStatus::\<close> becomes the prefix \<open>Aem_\<close>, \<^verbatim>\<open>AaCommandStatus::\<close>
    becomes \<open>Aa_\<close>, \<^verbatim>\<open>MvuCommandStatus::\<close> becomes \<open>Mvu_\<close> and
    \<^verbatim>\<open>ControlStatus::\<close> becomes \<open>Control_\<close>), with the function that gives the
    value written after \<^verbatim>\<open>=\<close> in the declaration;
  \<^item> the stored object, which is a \<^verbatim>\<open>std::uint16_t\<close>: an object of a scoped
    enumeration with a fixed underlying type can hold every value of that type, also one
    that no enumerator names (a status field taken from the wire). The operators are
    embedded on the stored value, so what is proved of them covers such values too.
\<close>

datatype AemCommandStatus =
    Aem_Success
  | Aem_NotImplemented
  | Aem_NoSuchDescriptor
  | Aem_LockedByOther
  | Aem_AcquiredByOther
  | Aem_NotAuthenticated
  | Aem_AuthenticationDisabled
  | Aem_BadArguments
  | Aem_NoResources
  | Aem_InProgress
  | Aem_EntityMisbehaving
  | Aem_NotSupported
  | Aem_StreamIsRunning
  | Aem_NetworkError
  | Aem_ProtocolError
  | Aem_TimedOut
  | Aem_UnknownEntity
  | Aem_InternalError

fun AemCommandStatus_value :: "AemCommandStatus \<Rightarrow> 16 word" where
  "AemCommandStatus_value Aem_Success = 0"
| "AemCommandStatus_value Aem_NotImplemented = 1"
| "AemCommandStatus_value Aem_NoSuchDescriptor = 2"
| "AemCommandStatus_value Aem_LockedByOther = 3"
| "AemCommandStatus_value Aem_AcquiredByOther = 4"
| "AemCommandStatus_value Aem_NotAuthenticated = 5"
| "AemCommandStatus_value Aem_AuthenticationDisabled = 6"
| "AemCommandStatus_value Aem_BadArguments = 7"
| "AemCommandStatus_value Aem_NoResources = 8"
| "AemCommandStatus_value Aem_InProgress = 9"
| "AemCommandStatus_value Aem_EntityMisbehaving = 10"
| "AemCommandStatus_value Aem_NotSupported = 11"
| "AemCommandStatus_value Aem_StreamIsRunning = 12"
| "AemCommandStatus_value Aem_NetworkError = 995"
| "AemCommandStatus_value Aem_ProtocolError = 996"
| "AemCommandStatus_value Aem_TimedOut = 997"
| "AemCommandStatus_value Aem_UnknownEntity = 998"
| "AemCommandStatus_value Aem_InternalError = 999"

text \<open>
  The declaration groups its enumerators under two comments, ``AVDECC Protocol Error
  Codes'' and ``Library Error Codes''; the predicate records the second group.
\<close>

fun AemCommandStatus_library :: "AemCommandStatus \<Rightarrow> bool" where
  "AemCommandStatus_library Aem_NetworkError = True"
| "AemCommandStatus_library Aem_ProtocolError = True"
| "AemCommandStatus_library Aem_TimedOut = True"
| "AemCommandStatus_library Aem_UnknownEntity = True"
| "AemCommandStatus_library Aem_InternalError = True"
| "AemCommandStatus_library _ = False"

datatype AaCommandStatus =
    Aa_Success
  | Aa_NotImplemented
  | Aa_AddressTooLow
  | Aa_AddressTooHigh
  | Aa_AddressInvalid
  | Aa_TlvInvalid
  | Aa_DataInvalid
  | Aa_Unsupported
  | Aa_Aborted
  | Aa_NetworkError
  | Aa_ProtocolError
  | Aa_TimedOut
  | Aa_UnknownEntity
  | Aa_InternalError

fun AaCommandStatus_value :: "AaCommandStatus \<Rightarrow> 16 word" where
  "AaCommandStatus_value Aa_Success = 0"
| "AaCommandStatus_value Aa_NotImplemented = 1"
| "AaCommandStatus_value Aa_AddressTooLow = 2"
| "AaCommandStatus_value Aa_AddressTooHigh = 3"
| "AaCommandStatus_value Aa_AddressInvalid = 4"
| "AaCommandStatus_value Aa_TlvInvalid = 5"
| "AaCommandStatus_value Aa_DataInvalid = 6"
| "AaCommandStatus_value Aa_Unsupported = 7"
| "AaCommandStatus_value Aa_Aborted = 994"
| "AaCommandStatus_value Aa_NetworkError = 995"
| "AaCommandStatus_value Aa_ProtocolError = 996"
| "AaCommandStatus_value Aa_TimedOut = 997"
| "AaCommandStatus_value Aa_UnknownEntity = 998"
| "AaCommandStatus_value Aa_InternalError = 999"

fun AaCommandStatus_library :: "AaCommandStatus \<Rightarrow> bool" where
  "AaCommandStatus_library Aa_Aborted = True"
| "AaCommandStatus_library Aa_NetworkError = True"
| "AaCommandStatus_library Aa_ProtocolError = True"
| "AaCommandStatus_library Aa_TimedOut = True"
| "AaCommandStatus_library Aa_UnknownEntity = True"
| "AaCommandStatus_library Aa_InternalError = True"
| "AaCommandStatus_library _ = False"

datatype MvuCommandStatus =
    Mvu_Success
  | Mvu_NotImplemented
  | Mvu_BadArguments
  | Mvu_NetworkError
  | Mvu_ProtocolError
  | Mvu_TimedOut
  | Mvu_UnknownEntity
  | Mvu_InternalError

fun MvuCommandStatus_value :: "MvuCommandStatus \<Rightarrow> 16 word" where
  "MvuCommandStatus_value Mvu_Success = 0"
| "MvuCommandStatus_value Mvu_NotImplemented = 1"
| "MvuCommandStatus_value Mvu_BadArguments = 2"
| "MvuCommandStatus_value Mvu_NetworkError = 995"
| "MvuCommandStatus_value Mvu_ProtocolError = 996"
| "MvuCommandStatus_value Mvu_TimedOut = 997"
| "MvuCommandStatus_value Mvu_UnknownEntity = 998"
| "MvuCommandStatus_value Mvu_InternalError = 999"

fun MvuCommandStatus_library :: "MvuCommandStatus \<Rightarrow> bool" where
  "MvuCommandStatus_library Mvu_NetworkError = True"
| "MvuCommandStatus_library Mvu_ProtocolError = True"
| "MvuCommandStatus_library Mvu_TimedOut = True"
| "MvuCommandStatus_library Mvu_UnknownEntity = True"
| "MvuCommandStatus_library Mvu_InternalError = True"
| "MvuCommandStatus_library _ = False"

datatype ControlStatus =
    Control_Success
  | Control_ListenerUnknownID
  | Control_TalkerUnknownID
  | Control_TalkerDestMacFail
  | Control_TalkerNoStreamIndex
  | Control_TalkerNoBandwidth
  | Control_TalkerExclusive
  | Control_ListenerTalkerTimeout
  | Control_ListenerExclusive
  | Control_StateUnavailable
  | Control_NotConnected
  | Control_NoSuchConnection
  | Control_CouldNotSendMessage
  | Control_TalkerMisbehaving
  | Control_ListenerMisbehaving
  | Control_ControllerNotAuthorized
  | Control_IncompatibleRequest
  | Control_NotSupported
  | Control_NetworkError
  | Control_ProtocolError
  | Control_TimedOut
  | Control_UnknownEntity
  | Control_InternalError

fun ControlStatus_value :: "ControlStatus \<Rightarrow> 16 word" where
  "ControlStatus_value Control_Success = 0"
| "ControlStatus_value Control_ListenerUnknownID = 1"
| "ControlStatus_value Control_TalkerUnknownID = 2"
| "ControlStatus_value Control_TalkerDestMacFail = 3"
| "ControlStatus_value Control_TalkerNoStreamIndex = 4"
| "ControlStatus_value Control_TalkerNoBandwidth = 5"
| "ControlStatus_value Control_TalkerExclusive = 6"
| "ControlStatus_value Control_ListenerTalkerTimeout = 7"
| "ControlStatus_value Control_ListenerExclusive = 8"
| "ControlStatus_value Control_StateUnavailable = 9"
| "ControlStatus_value Control_NotConnected = 10"
| "ControlStatus_value Control_NoSuchConnection = 11"
| "ControlStatus_value Control_CouldNotSendMessage = 12"
| "ControlStatus_value Control_TalkerMisbehaving = 13"
| "ControlStatus_value Control_ListenerMisbehaving = 14"
| "ControlStatus_value Control_ControllerNotAuthorized = 16"
| "ControlStatus_value Control_IncompatibleRequest = 17"
| "ControlStatus_value Control_NotSupported = 31"
| "ControlStatus_value Control_NetworkError = 995"
| "ControlStatus_value Control_ProtocolError = 996"
| "ControlStatus_value Control_TimedOut = 997"
| "ControlStatus_value Control_UnknownEntity = 998"
| "ControlStatus_value Control_InternalError = 999"

fun ControlStatus_library :: "ControlStatus \<Rightarrow> bool" where
  "ControlStatus_library Control_NetworkError = True"
| "ControlStatus_library Control_ProtocolError = True"
| "ControlStatus_library Control_TimedOut = True"
| "ControlStatus_library Control_UnknownEntity = True"
| "ControlStatus_library Control_InternalError = True"
| "ControlStatus_library _ = False"

subsection \<open>Operator overloads on the command statuses\<close>

text \<open>
  \<^verbatim>\<open>operator!\<close> compares the status with \<^verbatim>\<open>Success\<close>. \<^verbatim>\<open>operator|\<close> tests
  \<^verbatim>\<open>!!lhs\<close>: the inner \<^verbatim>\<open>!\<close> is the overload, the outer one the built-in negation
  of its \<^verbatim>\<open>bool\<close> result. \<^verbatim>\<open>operator|=\<close> on a reference assigns through it and
  returns it: the embedding returns the value stored in \<^verbatim>\<open>lhs\<close> afterwards.
\<close>

definition not_AemCommandStatus :: "16 word \<Rightarrow> bool" where
  "not_AemCommandStatus status \<longleftrightarrow> status \<noteq> AemCommandStatus_value Aem_Success"

definition or_AemCommandStatus :: "16 word \<Rightarrow> 16 word \<Rightarrow> 16 word" where
  "or_AemCommandStatus lhs rhs = (if \<not> not_AemCommandStatus lhs then rhs else lhs)"

definition or_assign_AemCommandStatus :: "16 word \<Rightarrow> 16 word \<Rightarrow> 16 word" where
  "or_assign_AemCommandStatus lhs rhs = (if \<not> not_AemCommandStatus lhs then rhs else lhs)"

definition not_AaCommandStatus :: "16 word \<Rightarrow> bool" where
  "not_AaCommandStatus status \<longleftrightarrow> status \<noteq> AaCommandStatus_value Aa_Success"

definition or_AaCommandStatus :: "16 word \<Rightarrow> 16 word \<Rightarrow> 16 word" where
  "or_AaCommandStatus lhs rhs = (if \<not> not_AaCommandStatus lhs then rhs else lhs)"

definition or_assign_AaCommandStatus :: "16 word \<Rightarrow> 16 word \<Rightarrow> 16 word" where
  "or_assign_AaCommandStatus lhs rhs = (if \<not> not_AaCommandStatus lhs then rhs else lhs)"

definition not_MvuCommandStatus :: "16 word \<Rightarrow> bool" where
  "not_MvuCommandStatus status \<longleftrightarrow> status \<noteq> MvuCommandStatus_value Mvu_Success"

definition or_MvuCommandStatus :: "16 word \<Rightarrow> 16 word \<Rightarrow> 16 word" where
  "or_MvuCommandStatus lhs rhs = (if \<not> not_MvuCommandStatus lhs then rhs else lhs)"

definition or_assign_MvuCommandStatus :: "16 word \<Rightarrow> 16 word \<Rightarrow> 16 word" where
  "or_assign_MvuCommandStatus lhs rhs = (if \<not> not_MvuCommandStatus lhs then rhs else lhs)"

definition not_ControlStatus :: "16 word \<Rightarrow> bool" where
  "not_ControlStatus status \<longleftrightarrow> status \<noteq> ControlStatus_value Control_Success"

text \<open>
  \<^verbatim>\<open>ControlStatus\<close> has no \<^verbatim>\<open>operator|\<close>; it has two overloads of \<^verbatim>\<open>operator|=\<close>,
  one on a reference and one that takes \<^verbatim>\<open>lhs\<close> by value and returns the result.
\<close>

definition or_assign_ref_ControlStatus :: "16 word \<Rightarrow> 16 word \<Rightarrow> 16 word" where
  "or_assign_ref_ControlStatus lhs rhs = (if \<not> not_ControlStatus lhs then rhs else lhs)"

definition or_assign_ControlStatus :: "16 word \<Rightarrow> 16 word \<Rightarrow> 16 word" where
  "or_assign_ControlStatus lhs rhs = (if \<not> not_ControlStatus lhs then rhs else lhs)"

section \<open>The error enumeration of the protocol interface\<close>

text \<open>
  \<^verbatim>\<open>ProtocolInterface::Error\<close> is a scoped enumeration with no underlying type given,
  so its objects store an \<^verbatim>\<open>int\<close>. Its operators compare and combine the stored
  values only, with \<^verbatim>\<open>==\<close> and the bitwise \<^verbatim>\<open>|\<close>, neither of which depends on the
  width of \<^verbatim>\<open>int\<close>; the stored value is embedded as a HOL integer, on which
  \<open>OR\<close> is the two's complement one.
\<close>

datatype Error =
    Error_NoError
  | Error_TransportError
  | Error_Timeout
  | Error_UnknownRemoteEntity
  | Error_UnknownLocalEntity
  | Error_InvalidEntityType
  | Error_DuplicateLocalEntityID
  | Error_InterfaceNotFound
  | Error_InterfaceInvalid
  | Error_InterfaceNotSupported
  | Error_MessageNotSupported
  | Error_InternalError

fun Error_value :: "Error \<Rightarrow> int" where
  "Error_value Error_NoError = 0"
| "Error_value Error_TransportError = 1"
| "Error_value Error_Timeout = 2"
| "Error_value Error_UnknownRemoteEntity = 3"
| "Error_value Error_UnknownLocalEntity = 4"
| "Error_value Error_InvalidEntityType = 5"
| "Error_value Error_DuplicateLocalEntityID = 6"
| "Error_value Error_InterfaceNotFound = 7"
| "Error_value Error_InterfaceInvalid = 8"
| "Error_value Error_InterfaceNotSupported = 9"
| "Error_value Error_MessageNotSupported = 10"
| "Error_value Error_InternalError = 99"

definition not_Error :: "int \<Rightarrow> bool" where
  "not_Error error \<longleftrightarrow> error = Error_value Error_NoError"

definition or_assign_Error :: "int \<Rightarrow> int \<Rightarrow> int" where
  "or_assign_Error lhs rhs = lhs OR rhs"

section \<open>The AECP transaction engine\<close>

text \<open>
  The headers declare the command methods of the controller only; the engine that
  serialises the commands sent to one target is not among the sources. This section is
  its description in section 4.D of the specification, with the transaction record of
  section 3, as a state machine: one state per target, a step per event, and the frames
  transmitted and the handlers completed as outputs.
\<close>

type_synonym UniqueIdentifier = "64 word"

text \<open>Modelled from the spec: the field \<^verbatim>\<open>kind: Aem|Aa|Mvu|Acmp\<close> of a transaction
  (section 3); the engine itself is missing from the sources.\<close>

datatype Kind = Aem | Aa | Mvu | Acmp

text \<open>Modelled from the spec: what a completion handler receives (sections 4.D and 7),
  either the status field of the matched response or one of the library statuses; the
  code that translates it into a status enumeration is missing from the sources.\<close>

datatype Outcome =
    Completed "8 word"
  | NetworkError
  | ProtocolError
  | TimedOut
  | UnknownEntity
  | InternalError

text \<open>Modelled from the spec: a typed call issued through the facade and not yet
  transmitted (section 4.F): the encoded command, the per-call completion handler and the
  dialect. The frame codec is missing from the sources, so the command is opaque bytes.\<close>

record Call =
  call_frame :: "8 word list"
  call_handler :: nat
  call_kind :: Kind

text \<open>Modelled from the spec: the record \<^verbatim>\<open>Transaction\<close> of section 3,
  \<^verbatim>\<open>{target, sequence_id, request_frame, deadline, attempts_remaining,
  completion_handler, kind}\<close>, with times in milliseconds; its declaration is missing
  from the sources.\<close>

record Transaction =
  target :: UniqueIdentifier
  sequence_id :: "16 word"
  request_frame :: "8 word list"
  deadline :: nat
  attempts_remaining :: nat
  completion_handler :: nat
  kind :: Kind

text \<open>Modelled from the spec: the per-target state of section 4.D,
  \<^verbatim>\<open>next_sequence_id: u16, inflight: map<sequence_id, Transaction>,
  serialization_queue: fifo\<close>; the map is an association list, so that the transactions
  in flight can be counted and enumerated. Missing from the sources.\<close>

record TargetState =
  next_sequence_id :: "16 word"
  inflight :: "(16 word \<times> Transaction) list"
  serialization_queue :: "Call list"

text \<open>Modelled from the spec: the timing constants of section 6, 250 ms for an AEM, AA
  or MVU command and 500 ms for an ACMP command; the constants are missing from the
  sources.\<close>

fun command_timeout :: "Kind \<Rightarrow> nat" where
  "command_timeout Acmp = 500"
| "command_timeout _ = 250"

text \<open>Modelled from the spec: step 2 of Issue, ``allocate sequence_id = post-increment
  of next_sequence_id, skipping any id currently in-flight''. The result is the identifier
  and the counter after it. The search is bounded by the number of identifiers that are
  tried; \<open>None\<close> means that each of them is in flight. Missing from the sources.\<close>

fun allocate :: "nat \<Rightarrow> 16 word \<Rightarrow> 16 word list \<Rightarrow> (16 word \<times> 16 word) option" where
  "allocate 0 next used = None"
| "allocate (Suc n) next used =
     (if next \<in> set used then allocate n (next + 1) used else Some (next, next + 1))"

text \<open>
  The outputs of a step on one target: the frames transmitted to it, each with its
  sequence identifier, and the handlers completed, each with its outcome.
\<close>

type_synonym Outputs = "(16 word \<times> 8 word list) list \<times> (nat \<times> Outcome) list"

text \<open>Modelled from the spec: steps 2 to 5 of Issue for a command that may be
  transmitted now: allocate the sequence identifier among all 65536, transmit, ``on
  transport failure, fail with NetworkError'', else register the transaction with
  deadline \<^verbatim>\<open>now + command_timeout\<close> and the one retry of section 4.D. The
  transport adapter of section 4.B sends successfully as long as the interface is usable.
  When no identifier is free the command cannot be sent without reusing one in flight; it
  is failed with InternalError. Missing from the sources.\<close>

definition dispatch ::
    "bool \<Rightarrow> nat \<Rightarrow> UniqueIdentifier \<Rightarrow> Call \<Rightarrow> TargetState \<Rightarrow> TargetState \<times> Outputs" where
  "dispatch usable now T c ts =
     (case allocate 65536 (next_sequence_id ts) (map fst (inflight ts)) of
        None \<Rightarrow> (ts, [], [(call_handler c, InternalError)])
      | Some (sid, nxt) \<Rightarrow>
          if usable then
            (ts\<lparr>next_sequence_id := nxt,
                inflight := inflight ts @
                  [(sid, \<lparr>target = T, sequence_id = sid, request_frame = call_frame c,
                          deadline = now + command_timeout (call_kind c),
                          attempts_remaining = 1,
                          completion_handler = call_handler c, kind = call_kind c\<rparr>)]\<rparr>,
             [(sid, call_frame c)], [])
          else (ts\<lparr>next_sequence_id := nxt\<rparr>, [], [(call_handler c, NetworkError)]))"

text \<open>Modelled from the spec: the serialization queue of section 4.D is first in, first
  out: once nothing is in flight to the target, the command at its head is dispatched; a
  command whose dispatch fails leaves nothing in flight, and the next one is tried.
  Missing from the sources.\<close>

fun drain ::
    "bool \<Rightarrow> nat \<Rightarrow> UniqueIdentifier \<Rightarrow> Call list \<Rightarrow> TargetState \<Rightarrow> TargetState \<times> Outputs" where
  "drain usable now T [] ts = (ts\<lparr>serialization_queue := []\<rparr>, [], [])"
| "drain usable now T (c # cs) ts =
     (case dispatch usable now T c (ts\<lparr>serialization_queue := cs\<rparr>) of
        (ts1, sent1, done1) \<Rightarrow>
          if inflight ts1 = [] then
            (case drain usable now T cs ts1 of
               (ts2, sent2, done2) \<Rightarrow> (ts2, sent1 @ sent2, done1 @ done2))
          else (ts1, sent1, done1))"

text \<open>Modelled from the spec: the end of a transaction (section 3, lifecycle): the
  transaction with this sequence identifier leaves the in-flight map, its handler is
  completed with the outcome, and the queue is served. Missing from the sources.\<close>

definition complete ::
    "bool \<Rightarrow> nat \<Rightarrow> UniqueIdentifier \<Rightarrow> 16 word \<Rightarrow> Outcome \<Rightarrow> TargetState \<Rightarrow> TargetState \<times> Outputs" where
  "complete usable now T sid outcome ts =
     (case map_of (inflight ts) sid of
        None \<Rightarrow> (ts, [], [])
      | Some txn \<Rightarrow>
          (case (if filter (\<lambda>p. fst p \<noteq> sid) (inflight ts) = []
                 then drain usable now T (serialization_queue ts)
                        (ts\<lparr>inflight := filter (\<lambda>p. fst p \<noteq> sid) (inflight ts)\<rparr>)
                 else (ts\<lparr>inflight := filter (\<lambda>p. fst p \<noteq> sid) (inflight ts)\<rparr>, [], [])) of
             (ts2, sent, done) \<Rightarrow> (ts2, sent, (completion_handler txn, outcome) # done)))"

text \<open>Modelled from the spec: Issue for a target present in the discovery table: ``at
  most one in-flight AEM command per target entity; additional commands to the same target
  are queued FIFO behind the in-flight one. AA and MVU commands share the same sequence-id
  space and serialization discipline.'' Missing from the sources.\<close>

definition issue ::
    "bool \<Rightarrow> nat \<Rightarrow> UniqueIdentifier \<Rightarrow> Call \<Rightarrow> TargetState \<Rightarrow> TargetState \<times> Outputs" where
  "issue usable now T c ts =
     (if inflight ts \<noteq> [] then (ts\<lparr>serialization_queue := serialization_queue ts @ [c]\<rparr>, [], [])
      else dispatch usable now T c ts)"

text \<open>Modelled from the spec: Match: a response with the sequence identifier of a
  pending transaction and a message type that corresponds to the command's dialect
  completes it with the status field of the response; any other response completes
  nothing. Missing from the sources.\<close>

definition response ::
    "bool \<Rightarrow> nat \<Rightarrow> UniqueIdentifier \<Rightarrow> 16 word \<Rightarrow> Kind \<Rightarrow> 8 word \<Rightarrow> TargetState \<Rightarrow> TargetState \<times> Outputs" where
  "response usable now T sid k st ts =
     (case map_of (inflight ts) sid of
        None \<Rightarrow> (ts, [], [])
      | Some txn \<Rightarrow>
          if kind txn = k then complete usable now T sid (Completed st) ts else (ts, [], []))"

text \<open>Modelled from the spec: the deadline of a transaction (Issue, step 5): ``one retry
  on timeout (total two attempts); on second timeout, fail with TimedOut''. The retry
  transmits the same frame with the same sequence identifier (scenario S3); when it cannot
  be transmitted the transaction fails with NetworkError. Missing from the sources.\<close>

definition expire ::
    "bool \<Rightarrow> nat \<Rightarrow> UniqueIdentifier \<Rightarrow> 16 word \<Rightarrow> TargetState \<Rightarrow> TargetState \<times> Outputs" where
  "expire usable now T sid ts =
     (case map_of (inflight ts) sid of
        None \<Rightarrow> (ts, [], [])
      | Some txn \<Rightarrow>
          if now < deadline txn then (ts, [], [])
          else if 0 < attempts_remaining txn then
            (if usable then
               (ts\<lparr>inflight :=
                     map (\<lambda>p. if fst p = sid
                               then (sid, txn\<lparr>deadline := now + command_timeout (kind txn),
                                              attempts_remaining := attempts_remaining txn - 1\<rparr>)
                               else p) (inflight ts)\<rparr>,
                [(sid, request_frame txn)], [])
             else complete usable now T sid NetworkError ts)
          else complete usable now T sid TimedOut ts)"

text \<open>Modelled from the spec: the failure semantics of section 4.D, ``all pending for
  that target complete with'' one outcome: the transactions in flight and then the queued
  commands, in issue order (scenario S4). Missing from the sources.\<close>

definition cancel_all :: "Outcome \<Rightarrow> TargetState \<Rightarrow> TargetState \<times> Outputs" where
  "cancel_all outcome ts =
     (ts\<lparr>inflight := [], serialization_queue := []\<rparr>, [],
      map (\<lambda>p. (completion_handler (snd p), outcome)) (inflight ts) @
      map (\<lambda>c. (call_handler c, outcome)) (serialization_queue ts))"

text \<open>Modelled from the spec: the state the engine owns (section 3, ownership): the
  discovery table, reduced to the identifiers of the entities that are online, the
  per-target states, whether the interface is still usable (section 4.B), and, as a
  record of what the engine has done, the frames transmitted and the handlers completed.
  Missing from the sources.\<close>

record Engine =
  discovery :: "UniqueIdentifier list"
  targets :: "UniqueIdentifier \<Rightarrow> TargetState"
  usable :: bool
  wire :: "(UniqueIdentifier \<times> 16 word \<times> 8 word list) list"
  completions :: "(nat \<times> Outcome) list"

text \<open>Modelled from the spec: the engine before any event: no entity known, nothing
  pending, sequence identifiers starting at 0 (scenario S2). Missing from the sources.\<close>

definition initial :: Engine where
  "initial =
     \<lparr>discovery = [],
      targets = (\<lambda>T. \<lparr>next_sequence_id = 0, inflight = [], serialization_queue = []\<rparr>),
      usable = True, wire = [], completions = []\<rparr>"

text \<open>Modelled from the spec: a step on the state of one target, with its frames sent
  to that target and its completions appended to the engine's records. Missing from the
  sources.\<close>

definition on_target ::
    "UniqueIdentifier \<Rightarrow> (TargetState \<Rightarrow> TargetState \<times> Outputs) \<Rightarrow> Engine \<Rightarrow> Engine" where
  "on_target T f e =
     (case f (targets e T) of
        (ts, sent, done) \<Rightarrow>
          e\<lparr>targets := (targets e)(T := ts),
            wire := wire e @ map (\<lambda>p. (T, fst p, snd p)) sent,
            completions := completions e @ done\<rparr>)"

text \<open>Modelled from the spec: what reaches the AECP engine: discovery reporting an
  entity online or offline (section 4.C), a call through the facade, a response or a
  malformed response from the inbound worker, a deadline from the timer worker, and the
  fatal loss of the transport (section 4.B). The events that need the time carry it, in
  milliseconds. Missing from the sources.\<close>

datatype Event =
    EntityOnline UniqueIdentifier
  | EntityOffline UniqueIdentifier
  | Issue nat UniqueIdentifier Call
  | Response nat UniqueIdentifier "16 word" Kind "8 word"
  | MalformedResponse nat UniqueIdentifier "16 word"
  | DeadlineExpired nat UniqueIdentifier "16 word"
  | TransportFatal

text \<open>Modelled from the spec: the engine's reaction to one event (section 4.D). Issue,
  step 1: ``if target is not present in the discovery table, fail synchronously with
  UnknownEntity''. Failure semantics: ``target going offline while transactions pend: all
  pending for that target complete with UnknownEntity; malformed response: ProtocolError;
  transport fatal: every pending transaction completes with NetworkError'', after which
  the interface is unusable. Missing from the sources.\<close>

fun step :: "Event \<Rightarrow> Engine \<Rightarrow> Engine" where
  "step (EntityOnline T) e =
     e\<lparr>discovery := (if T \<in> set (discovery e) then discovery e else discovery e @ [T])\<rparr>"
| "step (EntityOffline T) e =
     (on_target T (cancel_all UnknownEntity) e)\<lparr>discovery := removeAll T (discovery e)\<rparr>"
| "step (Issue now T c) e =
     (if T \<in> set (discovery e) then on_target T (issue (usable e) now T c) e
      else e\<lparr>completions := completions e @ [(call_handler c, UnknownEntity)]\<rparr>)"
| "step (Response now T sid k st) e = on_target T (response (usable e) now T sid k st) e"
| "step (MalformedResponse now T sid) e =
     on_target T (complete (usable e) now T sid ProtocolError) e"
| "step (DeadlineExpired now T sid) e = on_target T (expire (usable e) now T sid) e"
| "step TransportFatal e =
     e\<lparr>targets := (\<lambda>T. fst (cancel_all NetworkError (targets e T))),
       usable := False,
       completions := completions e @
         concat (map (\<lambda>T. snd (snd (cancel_all NetworkError (targets e T)))) (discovery e))\<rparr>"

text \<open>Modelled from the spec: the engine after a sequence of events, from its initial
  state; the states it can be in ``at every moment'' are these. Missing from the
  sources.\<close>

definition run :: "Event list \<Rightarrow> Engine" where
  "run evs = foldl (\<lambda>e ev. step ev e) initial evs"

text \<open>Modelled from the spec: the quantity of the first testable property of section 8,
  ``the count of in-flight AEM transactions to T''. Missing from the sources.\<close>

definition inflight_aem_count :: "Engine \<Rightarrow> UniqueIdentifier \<Rightarrow> nat" where
  "inflight_aem_count e T = length (filter (\<lambda>p. kind (snd p) = Aem) (inflight (targets e T)))"

text \<open>
  The serialization discipline as a property of the state of one target: at most one
  transaction in flight, and commands queued only behind one.
\<close>

definition serialised :: "TargetState \<Rightarrow> bool" where
  "serialised ts \<longleftrightarrow> length (inflight ts) \<le> 1 \<and> (inflight ts = [] \<longrightarrow> serialization_queue ts = [])"

section \<open>Facts about the operators and the engine\<close>

lemma foldl_first_failure:
  assumes f: "\<And>a b. f a b = (if a \<noteq> z then a else b)"
  shows "foldl f a xs = (if a \<noteq> z then a else (case find (\<lambda>s. s \<noteq> z) xs of None \<Rightarrow> z | Some s \<Rightarrow> s))"
proof (induction xs arbitrary: a)
  case Nil
  show ?case by simp
next
  case (Cons x xs)
  have step: "foldl f a (x # xs) = foldl f (if a \<noteq> z then a else x) xs"
    by (simp add: f [of a x])
  show ?case
    unfolding step Cons.IH by simp
qed


lemma or_AemCommandStatus_first_failure:
  "or_AemCommandStatus a b = (if a \<noteq> AemCommandStatus_value Aem_Success then a else b)"
  by (simp add: or_AemCommandStatus_def not_AemCommandStatus_def)

lemma or_AaCommandStatus_first_failure:
  "or_AaCommandStatus a b = (if a \<noteq> AaCommandStatus_value Aa_Success then a else b)"
  by (simp add: or_AaCommandStatus_def not_AaCommandStatus_def)

lemma or_MvuCommandStatus_first_failure:
  "or_MvuCommandStatus a b = (if a \<noteq> MvuCommandStatus_value Mvu_Success then a else b)"
  by (simp add: or_MvuCommandStatus_def not_MvuCommandStatus_def)

lemma or_assign_ControlStatus_first_failure:
  "or_assign_ControlStatus a b = (if a \<noteq> ControlStatus_value Control_Success then a else b)"
  by (simp add: or_assign_ControlStatus_def not_ControlStatus_def)

text \<open>
  The overloads of \<^verbatim>\<open>operator|=\<close> on a reference leave in \<^verbatim>\<open>lhs\<close> what the
  value-returning operator of the same enumeration returns.
\<close>

lemma or_assign_agrees:
  "or_assign_AemCommandStatus a b = or_AemCommandStatus a b"
  "or_assign_AaCommandStatus a b = or_AaCommandStatus a b"
  "or_assign_MvuCommandStatus a b = or_MvuCommandStatus a b"
  "or_assign_ref_ControlStatus a b = or_assign_ControlStatus a b"
  by (simp_all add: or_assign_AemCommandStatus_def or_AemCommandStatus_def
      or_assign_AaCommandStatus_def or_AaCommandStatus_def
      or_assign_MvuCommandStatus_def or_MvuCommandStatus_def
      or_assign_ref_ControlStatus_def or_assign_ControlStatus_def)

lemma AemCommandStatus_value_inj: "AemCommandStatus_value x = AemCommandStatus_value y \<longleftrightarrow> x = y"
  by (cases x; cases y; simp)

lemma AaCommandStatus_value_inj: "AaCommandStatus_value x = AaCommandStatus_value y \<longleftrightarrow> x = y"
  by (cases x; cases y; simp)

lemma MvuCommandStatus_value_inj: "MvuCommandStatus_value x = MvuCommandStatus_value y \<longleftrightarrow> x = y"
  by (cases x; cases y; simp)

lemma ControlStatus_value_inj: "ControlStatus_value x = ControlStatus_value y \<longleftrightarrow> x = y"
  by (cases x; cases y; simp)

lemma Error_value_inj: "Error_value x = Error_value y \<longleftrightarrow> x = y"
  by (cases x; cases y; simp)

subsection \<open>The serialization discipline is kept by every step\<close>

lemma allocate_free:
  "next \<notin> set used \<Longrightarrow> allocate 65536 next used = Some (next, next + 1)"
proof -
  have "(65536::nat) = Suc 65535" by simp
  then show "next \<notin> set used \<Longrightarrow> allocate 65536 next used = Some (next, next + 1)"
    by (simp only: allocate.simps) simp
qed

lemma dispatch_idle:
  assumes "inflight ts = []"
  shows "dispatch up now T c ts =
     (if up then
        (ts\<lparr>next_sequence_id := next_sequence_id ts + 1,
            inflight := [(next_sequence_id ts,
               \<lparr>target = T, sequence_id = next_sequence_id ts, request_frame = call_frame c,
                deadline = now + command_timeout (call_kind c), attempts_remaining = 1,
                completion_handler = call_handler c, kind = call_kind c\<rparr>)]\<rparr>,
         [(next_sequence_id ts, call_frame c)], [])
      else (ts\<lparr>next_sequence_id := next_sequence_id ts + 1\<rparr>, [], [(call_handler c, NetworkError)]))"
  using assms by (simp add: dispatch_def allocate_free)

lemma drain_serialised:
  "inflight ts = [] \<Longrightarrow> serialised (fst (drain up now T q ts))"
proof (induction q arbitrary: ts)
  case Nil
  then show ?case by (simp add: serialised_def)
next
  case (Cons c cs)
  show ?case
  proof (cases up)
    case True
    with Cons.prems show ?thesis by (simp add: dispatch_idle serialised_def)
  next
    case False
    with Cons.prems Cons.IH [of "ts\<lparr>serialization_queue := cs, next_sequence_id := next_sequence_id ts + 1\<rparr>"]
    show ?thesis by (auto simp add: dispatch_idle split: prod.splits)
  qed
qed

lemma complete_serialised:
  "serialised ts \<Longrightarrow> serialised (fst (complete up now T sid outcome ts))"
proof (cases "map_of (inflight ts) sid")
  case None
  assume "serialised ts"
  with None show ?thesis by (simp add: complete_def)
next
  case (Some txn)
  assume s: "serialised ts"
  show ?thesis
  proof (cases "filter (\<lambda>p. fst p \<noteq> sid) (inflight ts) = []")
    case True
    with Some drain_serialised [of "ts\<lparr>inflight := filter (\<lambda>p. fst p \<noteq> sid) (inflight ts)\<rparr>" up now T "serialization_queue ts"]
    show ?thesis by (auto simp add: complete_def split: prod.splits)
  next
    case False
    have "length (filter (\<lambda>p. fst p \<noteq> sid) (inflight ts)) \<le> 1"
      using s unfolding serialised_def by (meson le_trans length_filter_le)
    with False Some show ?thesis by (simp add: complete_def serialised_def)
  qed
qed

lemma issue_serialised:
  "serialised ts \<Longrightarrow> serialised (fst (issue up now T c ts))"
  by (simp add: issue_def dispatch_idle serialised_def)

lemma response_serialised:
  "serialised ts \<Longrightarrow> serialised (fst (response up now T sid k st ts))"
  by (simp add: response_def complete_serialised split: option.splits)

lemma expire_serialised:
  "serialised ts \<Longrightarrow> serialised (fst (expire up now T sid ts))"
proof -
  assume s: "serialised ts"
  have retry: "serialised (ts\<lparr>inflight := map f (inflight ts)\<rparr>)" for f
    using s by (simp add: serialised_def)
  show ?thesis
    by (simp add: expire_def complete_serialised [OF s] retry s split: option.splits)
qed

lemma cancel_all_serialised: "serialised (fst (cancel_all outcome ts))"
  by (simp add: cancel_all_def serialised_def)

lemma on_target_targets:
  "targets (on_target T f e) = (targets e)(T := fst (f (targets e T)))"
  by (simp add: on_target_def split: prod.splits)

lemma step_serialised:
  assumes "\<And>T. serialised (targets e T)"
  shows "serialised (targets (step ev e) T)"
  using assms
  by (cases ev)
    (simp_all add: on_target_targets issue_serialised response_serialised expire_serialised
      complete_serialised cancel_all_serialised)

lemma foldl_step_serialised:
  "(\<And>T. serialised (targets e T)) \<Longrightarrow> serialised (targets (foldl (\<lambda>e ev. step ev e) e evs) T)"
proof (induction evs arbitrary: e T)
  case Nil
  then show ?case by simp
next
  case (Cons ev evs)
  show ?case
    using Cons.IH [of "step ev e" T] step_serialised [of e ev] Cons.prems by simp
qed

lemma run_serialised: "serialised (targets (run evs) T)"
  unfolding run_def
  by (rule foldl_step_serialised) (simp add: initial_def serialised_def)

lemma issue_busy:
  "inflight ts \<noteq> [] \<Longrightarrow>
   issue up now T c ts = (ts\<lparr>serialization_queue := serialization_queue ts @ [c]\<rparr>, [], [])"
  by (simp add: issue_def)

lemma response_serves_head:
  assumes "inflight ts = [(sid, txn)]" and "kind txn = k"
    and "serialization_queue ts = c # cs"
  shows "response True now T sid k st ts =
     (ts\<lparr>serialization_queue := cs, next_sequence_id := next_sequence_id ts + 1,
         inflight := [(next_sequence_id ts,
            \<lparr>target = T, sequence_id = next_sequence_id ts, request_frame = call_frame c,
             deadline = now + command_timeout (call_kind c), attempts_remaining = 1,
             completion_handler = call_handler c, kind = call_kind c\<rparr>)]\<rparr>,
      [(next_sequence_id ts, call_frame c)], [(completion_handler txn, Completed st)])"
  using assms by (simp add: response_def complete_def dispatch_idle)

lemma run_two_issues: "run [EntityOnline 1, Issue 0 1 \<lparr>call_frame = [1], call_handler = 10, call_kind = Aem\<rparr>,
   Issue 5 1 \<lparr>call_frame = [2], call_handler = 20, call_kind = Aem\<rparr>] =
   \<lparr>discovery = [1],
    targets = (\<lambda>T. \<lparr>next_sequence_id = 0, inflight = [], serialization_queue = []\<rparr>)
      (1 := \<lparr>next_sequence_id = 1,
             inflight = [(0, \<lparr>target = 1, sequence_id = 0, request_frame = [1], deadline = 250,
                              attempts_remaining = 1, completion_handler = 10, kind = Aem\<rparr>)],
             serialization_queue = [\<lparr>call_frame = [2], call_handler = 20, call_kind = Aem\<rparr>]\<rparr>),
    usable = True, wire = [(1, 0, [1])], completions = []\<rparr>"
  by (simp add: run_def initial_def on_target_def issue_def dispatch_def allocate_free)

text \<open>
  The state machine on the scenarios S3 and S4 of the specification: a command that is
  never answered is transmitted twice with the sequence identifier 0 and then fails with
  TimedOut; a target that departs fails the command in flight and the queued one with
  UnknownEntity, in issue order, the queued one never having been transmitted.
\<close>

lemma scenario_S3:
  "wire (run [EntityOnline 1,
        Issue 0 1 \<lparr>call_frame = [1], call_handler = 10, call_kind = Aem\<rparr>,
        DeadlineExpired 250 1 0, DeadlineExpired 500 1 0]) = [(1, 0, [1]), (1, 0, [1])]"
  "completions (run [EntityOnline 1,
        Issue 0 1 \<lparr>call_frame = [1], call_handler = 10, call_kind = Aem\<rparr>,
        DeadlineExpired 250 1 0]) = []"
  "completions (run [EntityOnline 1,
        Issue 0 1 \<lparr>call_frame = [1], call_handler = 10, call_kind = Aem\<rparr>,
        DeadlineExpired 250 1 0, DeadlineExpired 500 1 0]) = [(10, TimedOut)]"
  by (simp_all add: run_def initial_def on_target_def issue_def dispatch_def allocate_free
      expire_def complete_def)

lemma scenario_S4:
  "completions (run [EntityOnline 1,
        Issue 0 1 \<lparr>call_frame = [1], call_handler = 10, call_kind = Aem\<rparr>,
        Issue 0 1 \<lparr>call_frame = [2], call_handler = 20, call_kind = Aem\<rparr>,
        EntityOffline 1]) = [(10, UnknownEntity), (20, UnknownEntity)]"
  "wire (run [EntityOnline 1,
        Issue 0 1 \<lparr>call_frame = [1], call_handler = 10, call_kind = Aem\<rparr>,
        Issue 0 1 \<lparr>call_frame = [2], call_handler = 20, call_kind = Aem\<rparr>,
        EntityOffline 1]) = [(1, 0, [1])]"
  by (simp_all add: run_def initial_def on_target_def issue_def dispatch_def allocate_free
      cancel_all_def)

text \<open>
  Where \<^verbatim>\<open>operator|=\<close> on the error enumeration does keep a failure: when the other
  operand is NoError. The result is NoError only when both operands are.
\<close>

lemma or_assign_Error_NoError:
  "or_assign_Error (Error_value Error_NoError) b = b"
  "or_assign_Error a (Error_value Error_NoError) = a"
  "or_assign_Error a b = Error_value Error_NoError \<longleftrightarrow>
     a = Error_value Error_NoError \<and> b = Error_value Error_NoError"
  by (simp_all add: or_assign_Error_def or_eq_0_iff)

section \<open>Folding command statuses\<close>

text \<open>
  Claim C1. For each of the four command status enumerations, the fold of two statuses
  (\<^verbatim>\<open>operator|\<close> for AemCommandStatus, AaCommandStatus and MvuCommandStatus, the
  value-returning \<^verbatim>\<open>operator|=\<close> for ControlStatus) is the first failure seen: it is
  \<open>a\<close> when \<open>a\<close> is not Success and \<open>b\<close> when \<open>a\<close> is Success. Hence Success is a
  left and a right identity, and folding a sequence of statuses from Success gives its
  first element other than Success (Success when there is none). This holds of every
  16-bit value the status objects can store.
\<close>

theorem status_fold_first_failure:
  "or_AemCommandStatus a b = (if a \<noteq> AemCommandStatus_value Aem_Success then a else b)
  \<and> or_AemCommandStatus (AemCommandStatus_value Aem_Success) b = b
  \<and> or_AemCommandStatus a (AemCommandStatus_value Aem_Success) = a
  \<and> foldl or_AemCommandStatus (AemCommandStatus_value Aem_Success) xs =
      (case find (\<lambda>s. s \<noteq> AemCommandStatus_value Aem_Success) xs of None \<Rightarrow> AemCommandStatus_value Aem_Success | Some s \<Rightarrow> s)
  \<and> or_AaCommandStatus a b = (if a \<noteq> AaCommandStatus_value Aa_Success then a else b)
  \<and> or_AaCommandStatus (AaCommandStatus_value Aa_Success) b = b
  \<and> or_AaCommandStatus a (AaCommandStatus_value Aa_Success) = a
  \<and> foldl or_AaCommandStatus (AaCommandStatus_value Aa_Success) xs =
      (case find (\<lambda>s. s \<noteq> AaCommandStatus_value Aa_Success) xs of None \<Rightarrow> AaCommandStatus_value Aa_Success | Some s \<Rightarrow> s)
  \<and> or_MvuCommandStatus a b = (if a \<noteq> MvuCommandStatus_value Mvu_Success then a else b)
  \<and> or_MvuCommandStatus (MvuCommandStatus_value Mvu_Success) b = b
  \<and> or_MvuCommandStatus a (MvuCommandStatus_value Mvu_Success) = a
  \<and> foldl or_MvuCommandStatus (MvuCommandStatus_value Mvu_Success) xs =
      (case find (\<lambda>s. s \<noteq> MvuCommandStatus_value Mvu_Success) xs of None \<Rightarrow> MvuCommandStatus_value Mvu_Success | Some s \<Rightarrow> s)
  \<and> or_assign_ControlStatus a b = (if a \<noteq> ControlStatus_value Control_Success then a else b)
  \<and> or_assign_ControlStatus (ControlStatus_value Control_Success) b = b
  \<and> or_assign_ControlStatus a (ControlStatus_value Control_Success) = a
  \<and> foldl or_assign_ControlStatus (ControlStatus_value Control_Success) xs =
      (case find (\<lambda>s. s \<noteq> ControlStatus_value Control_Success) xs of None \<Rightarrow> ControlStatus_value Control_Success | Some s \<Rightarrow> s)"
proof -
  note aem = or_AemCommandStatus_first_failure
  note aa = or_AaCommandStatus_first_failure
  note mvu = or_MvuCommandStatus_first_failure
  note ctl = or_assign_ControlStatus_first_failure
  have "foldl or_AemCommandStatus (AemCommandStatus_value Aem_Success) xs =
      (case find (\<lambda>s. s \<noteq> AemCommandStatus_value Aem_Success) xs of
         None \<Rightarrow> AemCommandStatus_value Aem_Success | Some s \<Rightarrow> s)"
    using foldl_first_failure [of or_AemCommandStatus "AemCommandStatus_value Aem_Success", OF aem]
    by simp
  moreover have "foldl or_AaCommandStatus (AaCommandStatus_value Aa_Success) xs =
      (case find (\<lambda>s. s \<noteq> AaCommandStatus_value Aa_Success) xs of
         None \<Rightarrow> AaCommandStatus_value Aa_Success | Some s \<Rightarrow> s)"
    using foldl_first_failure [of or_AaCommandStatus "AaCommandStatus_value Aa_Success", OF aa]
    by simp
  moreover have "foldl or_MvuCommandStatus (MvuCommandStatus_value Mvu_Success) xs =
      (case find (\<lambda>s. s \<noteq> MvuCommandStatus_value Mvu_Success) xs of
         None \<Rightarrow> MvuCommandStatus_value Mvu_Success | Some s \<Rightarrow> s)"
    using foldl_first_failure [of or_MvuCommandStatus "MvuCommandStatus_value Mvu_Success", OF mvu]
    by simp
  moreover have "foldl or_assign_ControlStatus (ControlStatus_value Control_Success) xs =
      (case find (\<lambda>s. s \<noteq> ControlStatus_value Control_Success) xs of
         None \<Rightarrow> ControlStatus_value Control_Success | Some s \<Rightarrow> s)"
    using foldl_first_failure [of or_assign_ControlStatus "ControlStatus_value Control_Success", OF ctl]
    by simp
  ultimately show ?thesis
    by (simp only: aem aa mvu ctl) simp
qed

theorem status_fold_first_failure_witness:
  "or_AemCommandStatus (AemCommandStatus_value Aem_TimedOut) (AemCommandStatus_value Aem_NoResources)
     = AemCommandStatus_value Aem_TimedOut
   \<and> or_AemCommandStatus (AemCommandStatus_value Aem_Success) (AemCommandStatus_value Aem_NoResources)
     = AemCommandStatus_value Aem_NoResources
   \<and> foldl or_assign_ControlStatus (ControlStatus_value Control_Success)
       [ControlStatus_value Control_Success, ControlStatus_value Control_NotConnected,
        ControlStatus_value Control_TimedOut]
     = ControlStatus_value Control_NotConnected"
  using status_fold_first_failure
    [of "AemCommandStatus_value Aem_TimedOut" "AemCommandStatus_value Aem_NoResources"
        "[ControlStatus_value Control_Success, ControlStatus_value Control_NotConnected,
          ControlStatus_value Control_TimedOut]"]
    status_fold_first_failure
    [of "AemCommandStatus_value Aem_Success" "AemCommandStatus_value Aem_NoResources" "[]"]
  by simp

section \<open>Negation of a status\<close>

text \<open>
  Claim C9. On each of the four command status enumerations \<^verbatim>\<open>operator!\<close> is true
  exactly when the status is not Success: of every stored value \<open>s\<close>, and so of every
  enumerator, where it is true of all but the enumerator Success.
\<close>

theorem not_status_tests_failure:
  "(not_AemCommandStatus s \<longleftrightarrow> s \<noteq> AemCommandStatus_value Aem_Success)
  \<and> (not_AaCommandStatus s \<longleftrightarrow> s \<noteq> AaCommandStatus_value Aa_Success)
  \<and> (not_MvuCommandStatus s \<longleftrightarrow> s \<noteq> MvuCommandStatus_value Mvu_Success)
  \<and> (not_ControlStatus s \<longleftrightarrow> s \<noteq> ControlStatus_value Control_Success)
  \<and> (not_AemCommandStatus (AemCommandStatus_value e1) \<longleftrightarrow> e1 \<noteq> Aem_Success)
  \<and> (not_AaCommandStatus (AaCommandStatus_value e2) \<longleftrightarrow> e2 \<noteq> Aa_Success)
  \<and> (not_MvuCommandStatus (MvuCommandStatus_value e3) \<longleftrightarrow> e3 \<noteq> Mvu_Success)
  \<and> (not_ControlStatus (ControlStatus_value e4) \<longleftrightarrow> e4 \<noteq> Control_Success)"
  unfolding not_AemCommandStatus_def not_AaCommandStatus_def not_MvuCommandStatus_def
    not_ControlStatus_def AemCommandStatus_value_inj AaCommandStatus_value_inj
    MvuCommandStatus_value_inj ControlStatus_value_inj
  by simp

theorem not_status_tests_failure_witness:
  "not_AemCommandStatus 997 \<and> \<not> not_AemCommandStatus 0
   \<and> not_ControlStatus (ControlStatus_value Control_NotSupported)
   \<and> \<not> not_MvuCommandStatus (MvuCommandStatus_value Mvu_Success)"
  using not_status_tests_failure [of 997 Aem_Success Aa_Success Mvu_Success Control_NotSupported]
    not_status_tests_failure [of 0 Aem_Success Aa_Success Mvu_Success Control_NotSupported]
  by simp

text \<open>
  Claim C10. On \<^verbatim>\<open>ProtocolInterface::Error\<close>, \<^verbatim>\<open>operator!\<close> is true exactly when the
  error is NoError: it tests for success, where \<^verbatim>\<open>operator!\<close> on the four command
  status enumerations tests for failure.
\<close>

theorem not_Error_tests_success:
  "(not_Error e \<longleftrightarrow> e = Error_value Error_NoError)
  \<and> (not_Error (Error_value n) \<longleftrightarrow> n = Error_NoError)
  \<and> (not_AemCommandStatus (AemCommandStatus_value e1) \<longleftrightarrow> \<not> (e1 = Aem_Success))
  \<and> (not_AaCommandStatus (AaCommandStatus_value e2) \<longleftrightarrow> \<not> (e2 = Aa_Success))
  \<and> (not_MvuCommandStatus (MvuCommandStatus_value e3) \<longleftrightarrow> \<not> (e3 = Mvu_Success))
  \<and> (not_ControlStatus (ControlStatus_value e4) \<longleftrightarrow> \<not> (e4 = Control_Success))"
  unfolding not_Error_def not_AemCommandStatus_def not_AaCommandStatus_def
    not_MvuCommandStatus_def not_ControlStatus_def AemCommandStatus_value_inj
    AaCommandStatus_value_inj MvuCommandStatus_value_inj ControlStatus_value_inj Error_value_inj
  by simp

theorem not_Error_tests_success_witness:
  "not_Error 0 \<and> \<not> not_Error 99 \<and> \<not> not_Error (Error_value Error_Timeout)
   \<and> not_AemCommandStatus (AemCommandStatus_value Aem_TimedOut)
   \<and> \<not> not_AemCommandStatus (AemCommandStatus_value Aem_Success)"
  using not_Error_tests_success [of 0 Error_Timeout Aem_TimedOut Aa_Success Mvu_Success Control_Success]
    not_Error_tests_success [of 99 Error_Timeout Aem_Success Aa_Success Mvu_Success Control_Success]
  by simp

section \<open>Numeric values of the enumerations\<close>

text \<open>
  Claim C3. In each of the four command status enumerations, an enumerator is one of the
  library status codes (NetworkError, ProtocolError, TimedOut, UnknownEntity,
  InternalError, and Aborted in AaCommandStatus) exactly when its numeric value lies in
  the reserved range 994 to 999: every library code is in the range, and no
  protocol-assigned code of any of the four enumerations is, so the two sets of codes
  cannot collide.
\<close>

theorem library_codes_reserved_range:
  "(AemCommandStatus_library e1 \<longleftrightarrow>
      994 \<le> unat (AemCommandStatus_value e1) \<and> unat (AemCommandStatus_value e1) \<le> 999)
  \<and> (AaCommandStatus_library e2 \<longleftrightarrow>
      994 \<le> unat (AaCommandStatus_value e2) \<and> unat (AaCommandStatus_value e2) \<le> 999)
  \<and> (MvuCommandStatus_library e3 \<longleftrightarrow>
      994 \<le> unat (MvuCommandStatus_value e3) \<and> unat (MvuCommandStatus_value e3) \<le> 999)
  \<and> (ControlStatus_library e4 \<longleftrightarrow>
      994 \<le> unat (ControlStatus_value e4) \<and> unat (ControlStatus_value e4) \<le> 999)"
proof -
  have "AemCommandStatus_library e1 \<longleftrightarrow>
      994 \<le> unat (AemCommandStatus_value e1) \<and> unat (AemCommandStatus_value e1) \<le> 999"
    by (cases e1) simp_all
  moreover have "AaCommandStatus_library e2 \<longleftrightarrow>
      994 \<le> unat (AaCommandStatus_value e2) \<and> unat (AaCommandStatus_value e2) \<le> 999"
    by (cases e2) simp_all
  moreover have "MvuCommandStatus_library e3 \<longleftrightarrow>
      994 \<le> unat (MvuCommandStatus_value e3) \<and> unat (MvuCommandStatus_value e3) \<le> 999"
    by (cases e3) simp_all
  moreover have "ControlStatus_library e4 \<longleftrightarrow>
      994 \<le> unat (ControlStatus_value e4) \<and> unat (ControlStatus_value e4) \<le> 999"
    by (cases e4) simp_all
  ultimately show ?thesis by blast
qed

theorem library_codes_reserved_range_witness:
  "unat (AemCommandStatus_value Aem_TimedOut) = 997
   \<and> unat (AaCommandStatus_value Aa_Aborted) = 994
   \<and> \<not> (994 \<le> unat (MvuCommandStatus_value Mvu_BadArguments))
   \<and> \<not> (994 \<le> unat (ControlStatus_value Control_NotSupported))"
  using library_codes_reserved_range [of Aem_TimedOut Aa_Aborted Mvu_BadArguments Control_NotSupported]
  by simp

text \<open>
  Claim C4. The enumeration \<^verbatim>\<open>ProtocolInterface::Error\<close> has the values NoError = 0,
  TransportError = 1, Timeout = 2, UnknownRemoteEntity = 3, UnknownLocalEntity = 4,
  InvalidEntityType = 5, DuplicateLocalEntityID = 6, InterfaceNotFound = 7,
  InterfaceInvalid = 8, InterfaceNotSupported = 9, MessageNotSupported = 10 and
  InternalError = 99, and it has no other enumerator: these twelve are all of them, and
  the values that an enumerator names are exactly these twelve numbers.
\<close>

theorem Error_values:
  "map Error_value
     [Error_NoError, Error_TransportError, Error_Timeout, Error_UnknownRemoteEntity,
      Error_UnknownLocalEntity, Error_InvalidEntityType, Error_DuplicateLocalEntityID,
      Error_InterfaceNotFound, Error_InterfaceInvalid, Error_InterfaceNotSupported,
      Error_MessageNotSupported, Error_InternalError]
    = [0, 1, 2, 3, 4, 5, 6, 7, 8, 9, 10, 99]
  \<and> (UNIV :: Error set) =
     {Error_NoError, Error_TransportError, Error_Timeout, Error_UnknownRemoteEntity,
      Error_UnknownLocalEntity, Error_InvalidEntityType, Error_DuplicateLocalEntityID,
      Error_InterfaceNotFound, Error_InterfaceInvalid, Error_InterfaceNotSupported,
      Error_MessageNotSupported, Error_InternalError}
  \<and> range Error_value = {0, 1, 2, 3, 4, 5, 6, 7, 8, 9, 10, 99}"
proof -
  have all: "e \<in> {Error_NoError, Error_TransportError, Error_Timeout, Error_UnknownRemoteEntity,
      Error_UnknownLocalEntity, Error_InvalidEntityType, Error_DuplicateLocalEntityID,
      Error_InterfaceNotFound, Error_InterfaceInvalid, Error_InterfaceNotSupported,
      Error_MessageNotSupported, Error_InternalError}" for e
    by (cases e) simp_all
  then have univ: "(UNIV :: Error set) =
     {Error_NoError, Error_TransportError, Error_Timeout, Error_UnknownRemoteEntity,
      Error_UnknownLocalEntity, Error_InvalidEntityType, Error_DuplicateLocalEntityID,
      Error_InterfaceNotFound, Error_InterfaceInvalid, Error_InterfaceNotSupported,
      Error_MessageNotSupported, Error_InternalError}"
    by blast
  have "range Error_value = {0, 1, 2, 3, 4, 5, 6, 7, 8, 9, 10, 99}"
    unfolding univ by simp
  with univ show ?thesis by simp
qed

text \<open>
  Claim C5. The enumeration \<^verbatim>\<open>ControlStatus\<close> has the protocol codes 0 to 14 as
  listed, ControllerNotAuthorized = 16, IncompatibleRequest = 17, NotSupported = 31 and
  the library codes 995 to 999; these twenty-three enumerators are all of them, and none
  has the value 15, a value from 18 to 30, or any other value outside the list.
\<close>

theorem ControlStatus_values:
  "map ControlStatus_value
     [Control_Success, Control_ListenerUnknownID, Control_TalkerUnknownID,
      Control_TalkerDestMacFail, Control_TalkerNoStreamIndex, Control_TalkerNoBandwidth,
      Control_TalkerExclusive, Control_ListenerTalkerTimeout, Control_ListenerExclusive,
      Control_StateUnavailable, Control_NotConnected, Control_NoSuchConnection,
      Control_CouldNotSendMessage, Control_TalkerMisbehaving, Control_ListenerMisbehaving,
      Control_ControllerNotAuthorized, Control_IncompatibleRequest, Control_NotSupported,
      Control_NetworkError, Control_ProtocolError, Control_TimedOut, Control_UnknownEntity,
      Control_InternalError]
    = [0, 1, 2, 3, 4, 5, 6, 7, 8, 9, 10, 11, 12, 13, 14, 16, 17, 31, 995, 996, 997, 998, 999]
  \<and> (UNIV :: ControlStatus set) =
     {Control_Success, Control_ListenerUnknownID, Control_TalkerUnknownID,
      Control_TalkerDestMacFail, Control_TalkerNoStreamIndex, Control_TalkerNoBandwidth,
      Control_TalkerExclusive, Control_ListenerTalkerTimeout, Control_ListenerExclusive,
      Control_StateUnavailable, Control_NotConnected, Control_NoSuchConnection,
      Control_CouldNotSendMessage, Control_TalkerMisbehaving, Control_ListenerMisbehaving,
      Control_ControllerNotAuthorized, Control_IncompatibleRequest, Control_NotSupported,
      Control_NetworkError, Control_ProtocolError, Control_TimedOut, Control_UnknownEntity,
      Control_InternalError}
  \<and> unat (ControlStatus_value e) \<in> {0..14} \<union> {16, 17, 31} \<union> {995..999}
  \<and> unat (ControlStatus_value e) \<noteq> 15
  \<and> unat (ControlStatus_value e) \<notin> {18..30}"
proof -
  have all: "x \<in> {Control_Success, Control_ListenerUnknownID, Control_TalkerUnknownID,
      Control_TalkerDestMacFail, Control_TalkerNoStreamIndex, Control_TalkerNoBandwidth,
      Control_TalkerExclusive, Control_ListenerTalkerTimeout, Control_ListenerExclusive,
      Control_StateUnavailable, Control_NotConnected, Control_NoSuchConnection,
      Control_CouldNotSendMessage, Control_TalkerMisbehaving, Control_ListenerMisbehaving,
      Control_ControllerNotAuthorized, Control_IncompatibleRequest, Control_NotSupported,
      Control_NetworkError, Control_ProtocolError, Control_TimedOut, Control_UnknownEntity,
      Control_InternalError}" for x
    by (cases x) simp_all
  then have univ: "(UNIV :: ControlStatus set) =
     {Control_Success, Control_ListenerUnknownID, Control_TalkerUnknownID,
      Control_TalkerDestMacFail, Control_TalkerNoStreamIndex, Control_TalkerNoBandwidth,
      Control_TalkerExclusive, Control_ListenerTalkerTimeout, Control_ListenerExclusive,
      Control_StateUnavailable, Control_NotConnected, Control_NoSuchConnection,
      Control_CouldNotSendMessage, Control_TalkerMisbehaving, Control_ListenerMisbehaving,
      Control_ControllerNotAuthorized, Control_IncompatibleRequest, Control_NotSupported,
      Control_NetworkError, Control_ProtocolError, Control_TimedOut, Control_UnknownEntity,
      Control_InternalError}"
    by blast
  have r: "unat (ControlStatus_value e) \<in> {0..14} \<union> {16, 17, 31} \<union> {995..999}"
    by (cases e) simp_all
  have g: "unat (ControlStatus_value e) \<noteq> 15" "unat (ControlStatus_value e) \<notin> {18..30}"
    by (cases e; simp)+
  from univ r g show ?thesis by simp
qed

section \<open>Folding errors of the protocol interface\<close>

text \<open>
  Claim C2 says that \<^verbatim>\<open>a |= b\<close> on \<^verbatim>\<open>ProtocolInterface::Error\<close> stores the first
  failure: the original \<open>a\<close> when \<open>a\<close> is not NoError. The operator stores the bitwise
  OR of the two values instead. With \<open>a\<close> TransportError (1) and \<open>b\<close> Timeout (2) it
  stores 3, which is UnknownRemoteEntity and not TransportError; with
  UnknownRemoteEntity (3) and InterfaceInvalid (8) it stores 11, which no enumerator
  names.
\<close>

theorem or_assign_Error_mixes_failures:
  "or_assign_Error (Error_value Error_TransportError) (Error_value Error_Timeout)
     = Error_value Error_UnknownRemoteEntity
  \<and> or_assign_Error (Error_value Error_TransportError) (Error_value Error_Timeout)
     \<noteq> Error_value Error_TransportError
  \<and> or_assign_Error (Error_value Error_UnknownRemoteEntity) (Error_value Error_InterfaceInvalid)
     = 11
  \<and> 11 \<notin> range Error_value"
proof -
  have "Error_value e \<noteq> 11" for e by (cases e) simp_all
  then have "11 \<notin> range Error_value" by auto
  then show ?thesis by (simp add: or_assign_Error_def)
qed

section \<open>One AEM command in flight per target\<close>

text \<open>
  Claim C6. In every state the engine reaches, from its initial state by any sequence of
  events, and for every target entity \<open>T\<close>, at most one AEM transaction addressed to
  \<open>T\<close> is in flight (indeed at most one transaction of any dialect), and commands
  wait in the queue only behind one in flight. A command issued to a known target while
  one is in flight is not transmitted: the wire and the in-flight map are unchanged and
  the command is appended at the back of the queue. The queue is served from the front:
  when the response to the transaction in flight arrives, the command at the head of the
  queue is the one transmitted, with the next sequence identifier, and the rest of the
  queue stays queued.
\<close>

theorem aem_at_most_one_in_flight:
  "inflight_aem_count (run evs) T \<le> 1
  \<and> length (inflight (targets (run evs) T)) \<le> 1
  \<and> (inflight (targets (run evs) T) = [] \<longrightarrow> serialization_queue (targets (run evs) T) = [])
  \<and> (T \<in> set (discovery (run evs)) \<and> inflight (targets (run evs) T) \<noteq> [] \<longrightarrow>
       wire (step (Issue now T c) (run evs)) = wire (run evs)
     \<and> inflight (targets (step (Issue now T c) (run evs)) T) = inflight (targets (run evs) T)
     \<and> serialization_queue (targets (step (Issue now T c) (run evs)) T) =
         serialization_queue (targets (run evs) T) @ [c])
  \<and> (usable (run evs) \<and> inflight (targets (run evs) T) = [(sid, txn)] \<and> kind txn = k
       \<and> serialization_queue (targets (run evs) T) = c' # cs \<longrightarrow>
       wire (step (Response now T sid k st) (run evs)) =
         wire (run evs) @ [(T, next_sequence_id (targets (run evs) T), call_frame c')]
     \<and> map (\<lambda>p. completion_handler (snd p))
           (inflight (targets (step (Response now T sid k st) (run evs)) T)) = [call_handler c']
     \<and> serialization_queue (targets (step (Response now T sid k st) (run evs)) T) = cs)"
proof -
  have s: "serialised (targets (run evs) T)" by (rule run_serialised)
  have "length (filter (\<lambda>p. kind (snd p) = Aem) (inflight (targets (run evs) T))) \<le> 1"
    using s unfolding serialised_def by (meson le_trans length_filter_le)
  then have a: "inflight_aem_count (run evs) T \<le> 1"
    by (simp add: inflight_aem_count_def)
  have b: "length (inflight (targets (run evs) T)) \<le> 1"
    and c: "inflight (targets (run evs) T) = [] \<longrightarrow> serialization_queue (targets (run evs) T) = []"
    using s by (simp_all add: serialised_def)
  have d: "T \<in> set (discovery (run evs)) \<and> inflight (targets (run evs) T) \<noteq> [] \<longrightarrow>
       wire (step (Issue now T c) (run evs)) = wire (run evs)
     \<and> inflight (targets (step (Issue now T c) (run evs)) T) = inflight (targets (run evs) T)
     \<and> serialization_queue (targets (step (Issue now T c) (run evs)) T) =
         serialization_queue (targets (run evs) T) @ [c]"
    by (simp add: on_target_def issue_busy)
  have e: "usable (run evs) \<and> inflight (targets (run evs) T) = [(sid, txn)] \<and> kind txn = k
       \<and> serialization_queue (targets (run evs) T) = c' # cs \<longrightarrow>
       wire (step (Response now T sid k st) (run evs)) =
         wire (run evs) @ [(T, next_sequence_id (targets (run evs) T), call_frame c')]
     \<and> map (\<lambda>p. completion_handler (snd p))
           (inflight (targets (step (Response now T sid k st) (run evs)) T)) = [call_handler c']
     \<and> serialization_queue (targets (step (Response now T sid k st) (run evs)) T) = cs"
    by (simp add: on_target_def response_serves_head)
  from a b c d e show ?thesis by blast
qed

theorem aem_at_most_one_in_flight_witness:
  "1 \<in> set (discovery (run [EntityOnline 1,
        Issue 0 1 \<lparr>call_frame = [1], call_handler = 10, call_kind = Aem\<rparr>,
        Issue 5 1 \<lparr>call_frame = [2], call_handler = 20, call_kind = Aem\<rparr>]))
   \<and> inflight_aem_count (run [EntityOnline 1,
        Issue 0 1 \<lparr>call_frame = [1], call_handler = 10, call_kind = Aem\<rparr>,
        Issue 5 1 \<lparr>call_frame = [2], call_handler = 20, call_kind = Aem\<rparr>]) 1 = 1
   \<and> wire (run [EntityOnline 1,
        Issue 0 1 \<lparr>call_frame = [1], call_handler = 10, call_kind = Aem\<rparr>,
        Issue 5 1 \<lparr>call_frame = [2], call_handler = 20, call_kind = Aem\<rparr>]) = [(1, 0, [1])]
   \<and> wire (step (Issue 7 1 \<lparr>call_frame = [3], call_handler = 30, call_kind = Aem\<rparr>)
       (run [EntityOnline 1,
        Issue 0 1 \<lparr>call_frame = [1], call_handler = 10, call_kind = Aem\<rparr>,
        Issue 5 1 \<lparr>call_frame = [2], call_handler = 20, call_kind = Aem\<rparr>])) = [(1, 0, [1])]
   \<and> serialization_queue (targets
       (step (Issue 7 1 \<lparr>call_frame = [3], call_handler = 30, call_kind = Aem\<rparr>)
       (run [EntityOnline 1,
        Issue 0 1 \<lparr>call_frame = [1], call_handler = 10, call_kind = Aem\<rparr>,
        Issue 5 1 \<lparr>call_frame = [2], call_handler = 20, call_kind = Aem\<rparr>])) 1)
       = [\<lparr>call_frame = [2], call_handler = 20, call_kind = Aem\<rparr>,
          \<lparr>call_frame = [3], call_handler = 30, call_kind = Aem\<rparr>]
   \<and> wire (step (Response 7 1 0 Aem 0)
       (run [EntityOnline 1,
        Issue 0 1 \<lparr>call_frame = [1], call_handler = 10, call_kind = Aem\<rparr>,
        Issue 5 1 \<lparr>call_frame = [2], call_handler = 20, call_kind = Aem\<rparr>]))
       = [(1, 0, [1]), (1, 1, [2])]"
  using aem_at_most_one_in_flight
    [where evs = "[EntityOnline 1,
        Issue 0 1 \<lparr>call_frame = [1], call_handler = 10, call_kind = Aem\<rparr>,
        Issue 5 1 \<lparr>call_frame = [2], call_handler = 20, call_kind = Aem\<rparr>]"
      and T = 1 and now = 7
      and c = "\<lparr>call_frame = [3], call_handler = 30, call_kind = Aem\<rparr>"
      and sid = 0
      and txn = "\<lparr>target = 1, sequence_id = 0, request_frame = [1], deadline = 250,
            attempts_remaining = 1, completion_handler = 10, kind = Aem\<rparr>"
      and k = Aem and c' = "\<lparr>call_frame = [2], call_handler = 20, call_kind = Aem\<rparr>"
      and cs = "[]" and st = 0]
  unfolding run_two_issues
  by (simp add: inflight_aem_count_def)

end
